theory Spec2Isabelle
  imports Complex_Main "HOL-Library.AList"
begin

section \<open>Data model (sampleData.ts, rebalancer.ts)\<close>

text \<open>
  JavaScript numbers that only ever hold integers in this program (acuity, workload,
  capacities, list lengths) are modelled as \<open>int\<close>; numbers that hold fractions
  (probabilities, utilisation, the convergence factor, statistics) as \<open>real\<close>, that is,
  IEEE rounding is not modelled. Strings are \<open>string\<close>. Object fields keep the source's
  names, with a prefix where two interfaces share a field name (\<open>pt_\<close> for Patient,
  \<open>st_\<close> for StaffMember, \<open>s_\<close> for SimulationState).
\<close>

datatype ShiftType = morning | afternoon | night

record Break =
  b_type :: string
  b_startTime :: string
  b_endTime :: string
  duration :: int

record Shift =
  shiftType :: ShiftType
  startTime :: string
  endTime :: string
  breaks :: "Break list"
  hoursWorked :: int

record StaffMember =
  st_id :: string
  st_name :: string
  st_qualifications :: "string list"
  st_maxPatients :: int
  st_maxWorkload :: int
  st_unit :: string
  st_shift :: Shift

record Patient =
  pt_id :: string
  pt_name :: string
  acuity :: int
  condition :: string
  requiredSkills :: "string list"
  assignedNurseId :: "string option"
  pt_unit :: string

record Assignment =
  nurseId :: string
  nurseName :: string
  unit :: string
  qualifications :: "string list"
  patients :: "Patient list"
  workload :: int
  maxWorkload :: int
  maxPatients :: int
  isOverloaded :: bool
  alert :: string
  shift :: Shift

record RebalancingSuggestion =
  fromNurseId :: string
  fromNurseName :: string
  toNurseId :: string
  toNurseName :: string
  patientId :: string
  patientName :: string
  reason :: string
  expectedFromWorkload :: int
  expectedToWorkload :: int
  skillMatch :: bool

section \<open>Assignment solver (rebalancer.ts, assignPatientsToNurses)\<close>

text \<open>
  An element of the local array \<open>staffWithWorkload\<close>: the spread copy of a staff member
  with its two tracking fields.
\<close>

record TrackedNurse =
  nurse :: StaffMember
  assignedPatients :: "Patient list"
  currentWorkload :: int

definition trackStaff :: "StaffMember \<Rightarrow> TrackedNurse" where
  "trackStaff n = \<lparr>nurse = n, assignedPatients = [], currentWorkload = 0\<rparr>"

text \<open>The two filter predicates of the loop body.\<close>

definition hasCapacity :: "TrackedNurse \<Rightarrow> bool" where
  "hasCapacity n \<longleftrightarrow>
     currentWorkload n < st_maxWorkload (nurse n) \<and>
     int (length (assignedPatients n)) < st_maxPatients (nurse n)"

definition isQualified :: "Patient \<Rightarrow> TrackedNurse \<Rightarrow> bool" where
  "isQualified patient n \<longleftrightarrow>
     pt_unit patient \<in> set (st_qualifications (nurse n)) \<and> hasCapacity n"

text \<open>
  \<open>filter\<close> returns references to the objects of \<open>staffWithWorkload\<close>; a reference is
  modelled as the object's index in that array, so that the later mutation of
  \<open>bestNurse\<close> is an update of the array at this index.
\<close>

definition qualifiedNurses :: "Patient \<Rightarrow> TrackedNurse list \<Rightarrow> nat list" where
  "qualifiedNurses patient ns = filter (\<lambda>i. isQualified patient (ns ! i)) [0..<length ns]"

definition availableNurses :: "TrackedNurse list \<Rightarrow> nat list" where
  "availableNurses ns = filter (\<lambda>i. hasCapacity (ns ! i)) [0..<length ns]"

text \<open>
  \<open>pool.reduce((prev, current) => prev.currentWorkload < current.currentWorkload ? prev : current)\<close>
  on a non-empty pool: the accumulator starts as the first element.
\<close>

fun reduceBest :: "TrackedNurse list \<Rightarrow> nat \<Rightarrow> nat list \<Rightarrow> nat" where
  "reduceBest ns prev [] = prev"
| "reduceBest ns prev (current # rest) =
     reduceBest ns
       (if currentWorkload (ns ! prev) < currentWorkload (ns ! current) then prev else current)
       rest"

text \<open>
  The three statements that place a patient: push, add the acuity, set the patient's
  back-reference. The patient object is shared with the caller's patient array, so the
  mutated patient is returned as well.
\<close>

definition assignTo :: "nat \<Rightarrow> Patient \<Rightarrow> TrackedNurse list \<Rightarrow> TrackedNurse list \<times> Patient" where
  "assignTo i patient ns =
     (let bestNurse = ns ! i;
          patient' = patient\<lparr>assignedNurseId := Some (st_id (nurse bestNurse))\<rparr>
      in (ns[i := bestNurse\<lparr>assignedPatients := assignedPatients bestNurse @ [patient'],
                            currentWorkload := currentWorkload bestNurse + acuity patient\<rparr>],
          patient'))"

definition assignPatient :: "Patient \<Rightarrow> TrackedNurse list \<Rightarrow> TrackedNurse list \<times> Patient" where
  "assignPatient patient ns =
     (case qualifiedNurses patient ns of
        i # rest \<Rightarrow> assignTo (reduceBest ns i rest) patient ns
      | [] \<Rightarrow>
         (case availableNurses ns of
            i # rest \<Rightarrow> assignTo (reduceBest ns i rest) patient ns
          | [] \<Rightarrow> (ns, patient)))"

text \<open>
  The loop over \<open>sortedPatients\<close>. Each patient carries its index in the caller's array,
  where the mutated object is written back.
\<close>

fun assignLoop ::
  "(nat \<times> Patient) list \<Rightarrow> TrackedNurse list \<Rightarrow> Patient list \<Rightarrow> TrackedNurse list \<times> Patient list" where
  "assignLoop [] ns ps = (ns, ps)"
| "assignLoop ((k, patient) # rest) ns ps =
     (case assignPatient patient ns of
        (ns', patient') \<Rightarrow> assignLoop rest ns' (ps[k := patient']))"

text \<open>
  \<open>[...patients].sort((a, b) => b.acuity - a.acuity)\<close>: a stable sort, descending by acuity.
\<close>

definition sortedPatients :: "Patient list \<Rightarrow> (nat \<times> Patient) list" where
  "sortedPatients ps = sort_key (\<lambda>(k, p). - acuity p) (zip [0..<length ps] ps)"

definition toAssignment :: "TrackedNurse \<Rightarrow> Assignment" where
  "toAssignment n =
     \<lparr>nurseId = st_id (nurse n),
      nurseName = st_name (nurse n),
      unit = st_unit (nurse n),
      qualifications = st_qualifications (nurse n),
      patients = assignedPatients n,
      workload = currentWorkload n,
      maxWorkload = st_maxWorkload (nurse n),
      maxPatients = st_maxPatients (nurse n),
      isOverloaded =
        (currentWorkload n > st_maxWorkload (nurse n) \<or>
         int (length (assignedPatients n)) > st_maxPatients (nurse n)),
      alert =
        (if int (length (assignedPatients n)) > st_maxPatients (nurse n) then ''Too many patients!''
         else if currentWorkload n > st_maxWorkload (nurse n) then ''Workload too high!''
         else ''''),
      shift = st_shift (nurse n)\<rparr>"

text \<open>
  The result is the assignment array together with the caller's patient array after the
  back-references were written.
\<close>

definition assignPatientsToNurses ::
  "Patient list \<Rightarrow> StaffMember list \<Rightarrow> Assignment list \<times> Patient list" where
  "assignPatientsToNurses ps staff =
     (case assignLoop (sortedPatients ps) (map trackStaff staff) ps of
        (ns, ps') \<Rightarrow> (map toAssignment ns, ps'))"

section \<open>Applying a suggestion (rebalancer.ts, applySuggestion)\<close>

definition hasId :: "string \<Rightarrow> Patient \<Rightarrow> bool" where
  "hasId pid p \<longleftrightarrow> pt_id p = pid"

definition alertFor :: "int \<Rightarrow> int \<Rightarrow> Assignment \<Rightarrow> string" where
  "alertFor w n a =
     (if w > maxWorkload a then ''Workload too high!''
      else if n > maxPatients a then ''Too many patients!''
      else '''')"

definition addPatient :: "Assignment list \<Rightarrow> RebalancingSuggestion \<Rightarrow> Assignment \<Rightarrow> Assignment" where
  "addPatient assignments suggestion a =
     (if nurseId a = toNurseId suggestion then
        (case (case find (\<lambda>x. nurseId x = fromNurseId suggestion) assignments of
                 None \<Rightarrow> None
               | Some x \<Rightarrow> find (hasId (patientId suggestion)) (patients x)) of
           Some patientToAdd \<Rightarrow>
             a\<lparr>patients := patients a @ [patientToAdd],
               workload := workload a + acuity patientToAdd,
               isOverloaded :=
                 (workload a + acuity patientToAdd > maxWorkload a \<or>
                  int (length (patients a)) + 1 > maxPatients a),
               alert := alertFor (workload a + acuity patientToAdd) (int (length (patients a)) + 1) a\<rparr>
         | None \<Rightarrow> a)
      else a)"

definition applyOne :: "Assignment list \<Rightarrow> RebalancingSuggestion \<Rightarrow> Assignment \<Rightarrow> Assignment" where
  "applyOne assignments suggestion a =
     (if nurseId a = fromNurseId suggestion then
        (case find (hasId (patientId suggestion)) (patients a) of
           Some patientToMove \<Rightarrow>
             a\<lparr>patients := filter (\<lambda>p. pt_id p \<noteq> patientId suggestion) (patients a),
               workload := workload a - acuity patientToMove,
               isOverloaded :=
                 (workload a - acuity patientToMove > maxWorkload a \<or>
                  int (length (patients a)) - 1 > maxPatients a),
               alert := alertFor (workload a - acuity patientToMove) (int (length (patients a)) - 1) a\<rparr>
         | None \<Rightarrow> addPatient assignments suggestion a)
      else addPatient assignments suggestion a)"

definition applySuggestion :: "Assignment list \<Rightarrow> RebalancingSuggestion \<Rightarrow> Assignment list" where
  "applySuggestion assignments suggestion = map (applyOne assignments suggestion) assignments"

section \<open>Imbalance detector (rebalancer.ts, generateRebalancingSuggestions)\<close>

text \<open>
  The detector writes to the objects of the array it is given
  (\<open>targetNurse.workload += patient.acuity; targetNurse.patients.push(patient)\<close>, where
  \<open>targetNurse\<close> is an element of \<open>assignments.filter(...)\<close>, that is, one of the caller's
  objects). The array is therefore the store of this function: a reference to an assignment
  is its index, and the function returns the suggestions together with the array as it is
  after the call. Distinct positions are taken to hold distinct objects with patient arrays
  of their own, as the solver produces them.
\<close>

fun showNat :: "nat \<Rightarrow> string" where
  "showNat n =
     (if n < 10 then [char_of (48 + n)] else showNat (n div 10) @ [char_of (48 + n mod 10)])"

definition showInt :: "int \<Rightarrow> string" where
  "showInt i = (if i < 0 then ''-'' @ showNat (nat (- i)) else showNat (nat i))"

definition isUnderutilized :: "Assignment \<Rightarrow> Assignment \<Rightarrow> bool" where
  "isUnderutilized overloaded a \<longleftrightarrow>
     nurseId a \<noteq> nurseId overloaded \<and>
     real_of_int (workload a) < real_of_int (maxWorkload a) * (6 / 10) \<and>
     int (length (patients a)) < maxPatients a"

definition underutilizedNurses :: "Assignment list \<Rightarrow> nat \<Rightarrow> nat list" where
  "underutilizedNurses as ov =
     filter (\<lambda>i. isUnderutilized (as ! ov) (as ! i)) [0..<length as]"

definition targetNurse :: "Assignment list \<Rightarrow> nat list \<Rightarrow> Patient \<Rightarrow> nat option" where
  "targetNurse as cands patient =
     (case filter (\<lambda>i. pt_unit patient \<in> set (qualifications (as ! i))) cands of
        t # _ \<Rightarrow> Some t
      | [] \<Rightarrow> (case cands of t # _ \<Rightarrow> Some t | [] \<Rightarrow> None))"

definition mkSuggestion :: "Assignment \<Rightarrow> Assignment \<Rightarrow> Patient \<Rightarrow> RebalancingSuggestion" where
  "mkSuggestion overloaded target patient =
     \<lparr>fromNurseId = nurseId overloaded,
      fromNurseName = nurseName overloaded,
      toNurseId = nurseId target,
      toNurseName = nurseName target,
      patientId = pt_id patient,
      patientName = pt_name patient,
      reason = ''Move '' @ pt_name patient @ '' (acuity '' @ showInt (acuity patient) @ '') from ''
               @ nurseName overloaded @ '' to '' @ nurseName target @ '' to balance workload'',
      expectedFromWorkload = workload overloaded - acuity patient,
      expectedToWorkload = workload target + acuity patient,
      skillMatch = (pt_unit patient \<in> set (qualifications target))\<rparr>"

text \<open>The body of the inner loop, for one patient of the overloaded assignment \<open>ov\<close>.\<close>

definition suggestFor ::
  "nat \<Rightarrow> nat list \<Rightarrow> Patient \<Rightarrow> RebalancingSuggestion list \<times> Assignment list
     \<Rightarrow> RebalancingSuggestion list \<times> Assignment list" where
  "suggestFor ov cands patient st =
     (case st of (suggestions, as) \<Rightarrow>
       (case targetNurse as cands patient of
          None \<Rightarrow> (suggestions, as)
        | Some t \<Rightarrow>
           (if workload (as ! ov) - acuity patient < workload (as ! ov) \<and>
               workload (as ! t) + acuity patient < maxWorkload (as ! t)
            then (suggestions @ [mkSuggestion (as ! ov) (as ! t) patient],
                  as[t := (as ! t)\<lparr>workload := workload (as ! t) + acuity patient,
                                    patients := patients (as ! t) @ [patient]\<rparr>])
            else (suggestions, as))))"

text \<open>The body of the outer loop, for one overloaded assignment.\<close>

definition suggestForOverloaded ::
  "nat \<Rightarrow> RebalancingSuggestion list \<times> Assignment list
     \<Rightarrow> RebalancingSuggestion list \<times> Assignment list" where
  "suggestForOverloaded ov st =
     fold (suggestFor ov (underutilizedNurses (snd st) ov)) (patients (snd st ! ov)) st"

definition overloadedAssignments :: "Assignment list \<Rightarrow> nat list" where
  "overloadedAssignments as = filter (\<lambda>i. isOverloaded (as ! i)) [0..<length as]"

definition generateRebalancingSuggestions ::
  "Assignment list \<Rightarrow> RebalancingSuggestion list \<times> Assignment list" where
  "generateRebalancingSuggestions as =
     fold suggestForOverloaded (overloadedAssignments as) ([], as)"

declare showNat.simps [simp del]

section \<open>The roster (sampleData.ts)\<close>

definition morningShift :: Shift where
  "morningShift =
     \<lparr>shiftType = morning, startTime = ''06:00'', endTime = ''14:00'',
      breaks =
       [\<lparr>b_type = ''lunch'', b_startTime = ''10:00'', b_endTime = ''10:30'', duration = 30\<rparr>,
        \<lparr>b_type = ''short'', b_startTime = ''08:00'', b_endTime = ''08:15'', duration = 15\<rparr>,
        \<lparr>b_type = ''short'', b_startTime = ''12:00'', b_endTime = ''12:15'', duration = 15\<rparr>],
      hoursWorked = 8\<rparr>"

definition afternoonShift :: Shift where
  "afternoonShift =
     \<lparr>shiftType = afternoon, startTime = ''14:00'', endTime = ''22:00'',
      breaks =
       [\<lparr>b_type = ''lunch'', b_startTime = ''18:00'', b_endTime = ''18:30'', duration = 30\<rparr>,
        \<lparr>b_type = ''short'', b_startTime = ''16:00'', b_endTime = ''16:15'', duration = 15\<rparr>,
        \<lparr>b_type = ''short'', b_startTime = ''20:00'', b_endTime = ''20:15'', duration = 15\<rparr>],
      hoursWorked = 8\<rparr>"

definition nightShift :: Shift where
  "nightShift =
     \<lparr>shiftType = night, startTime = ''22:00'', endTime = ''06:00'',
      breaks =
       [\<lparr>b_type = ''lunch'', b_startTime = ''02:00'', b_endTime = ''02:30'', duration = 30\<rparr>,
        \<lparr>b_type = ''short'', b_startTime = ''00:00'', b_endTime = ''00:15'', duration = 15\<rparr>,
        \<lparr>b_type = ''short'', b_startTime = ''04:00'', b_endTime = ''04:15'', duration = 15\<rparr>],
      hoursWorked = 8\<rparr>"

definition nurse_001 :: StaffMember where
  "nurse_001 =
     \<lparr>st_id = ''nurse-001'', st_name = ''Sarah Johnson'', st_qualifications = [''ICU'', ''ER''],
      st_maxPatients = 3, st_maxWorkload = 8, st_unit = ''ICU'', st_shift = morningShift\<rparr>"

definition nurse_002 :: StaffMember where
  "nurse_002 =
     \<lparr>st_id = ''nurse-002'', st_name = ''Michael Chen'', st_qualifications = [''ICU'', ''MEDSURG''],
      st_maxPatients = 4, st_maxWorkload = 9, st_unit = ''ICU'', st_shift = afternoonShift\<rparr>"

definition nurse_003 :: StaffMember where
  "nurse_003 =
     \<lparr>st_id = ''nurse-003'', st_name = ''Emma Rodriguez'', st_qualifications = [''ER'', ''MEDSURG''],
      st_maxPatients = 5, st_maxWorkload = 10, st_unit = ''ER'', st_shift = morningShift\<rparr>"

definition nurse_004 :: StaffMember where
  "nurse_004 =
     \<lparr>st_id = ''nurse-004'', st_name = ''James Wilson'', st_qualifications = [''ER'', ''ICU''],
      st_maxPatients = 4, st_maxWorkload = 8, st_unit = ''ER'', st_shift = nightShift\<rparr>"

definition nurse_005 :: StaffMember where
  "nurse_005 =
     \<lparr>st_id = ''nurse-005'', st_name = ''Lisa Thompson'', st_qualifications = [''MEDSURG'', ''PEDS''],
      st_maxPatients = 4, st_maxWorkload = 8, st_unit = ''MEDSURG'', st_shift = afternoonShift\<rparr>"

definition nurse_006 :: StaffMember where
  "nurse_006 =
     \<lparr>st_id = ''nurse-006'', st_name = ''David Martinez'', st_qualifications = [''PEDS'', ''MEDSURG''],
      st_maxPatients = 3, st_maxWorkload = 7, st_unit = ''PEDS'', st_shift = morningShift\<rparr>"

definition nurse_007 :: StaffMember where
  "nurse_007 =
     \<lparr>st_id = ''nurse-007'', st_name = ''Amanda Lee'', st_qualifications = [''ICU'', ''ER'', ''MEDSURG''],
      st_maxPatients = 4, st_maxWorkload = 9, st_unit = ''ICU'', st_shift = nightShift\<rparr>"

definition nurse_008 :: StaffMember where
  "nurse_008 =
     \<lparr>st_id = ''nurse-008'', st_name = ''Robert Garcia'', st_qualifications = [''MEDSURG'', ''ER''],
      st_maxPatients = 5, st_maxWorkload = 10, st_unit = ''MEDSURG'', st_shift = morningShift\<rparr>"

definition nurse_009 :: StaffMember where
  "nurse_009 =
     \<lparr>st_id = ''nurse-009'', st_name = ''Jennifer Brown'', st_qualifications = [''PEDS'', ''MEDSURG''],
      st_maxPatients = 4, st_maxWorkload = 8, st_unit = ''PEDS'', st_shift = afternoonShift\<rparr>"

definition nurse_010 :: StaffMember where
  "nurse_010 =
     \<lparr>st_id = ''nurse-010'', st_name = ''Christopher Davis'', st_qualifications = [''ER'', ''ICU''],
      st_maxPatients = 3, st_maxWorkload = 8, st_unit = ''ER'', st_shift = afternoonShift\<rparr>"

definition STATIC_STAFF :: "StaffMember list" where
  "STATIC_STAFF =
     [nurse_001, nurse_002, nurse_003, nurse_004, nurse_005,
      nurse_006, nurse_007, nurse_008, nurse_009, nurse_010]"

section \<open>Simulation engine: state and environment (simulationEngine.ts)\<close>

record NurseLoad =
  utilization :: real
  nl_nurseName :: string

text \<open>
  \<open>nurseWorkloads\<close> is a JavaScript object used as a dictionary: an association list in
  insertion order, where writing an existing key replaces its value in place.
\<close>

record WorkloadSnapshot =
  snap_tick :: nat
  nurseWorkloads :: "(string \<times> NurseLoad) list"

record SimulationState =
  s_patients :: "Patient list"
  s_assignments :: "Assignment list"
  lastUpdate :: nat
  tick :: nat
  isRunning :: bool
  workloadHistory :: "WorkloadSnapshot list"

text \<open>
  The module-level mutable data: the objects of \<open>STATIC_STAFF\<close> (JavaScript objects are
  mutable, so the roster is part of the state) and the variable \<open>simulationState\<close>.
\<close>

record World =
  staticStaff :: "StaffMember list"
  simulationState :: SimulationState

text \<open>
  What one operation reads from outside: \<open>rand k\<close> is the value of the operation's
  \<open>k\<close>-th call of \<open>Math.random()\<close> (by its contract in the interval from 0 to 1, 1
  excluded), \<open>now\<close> the clock (\<open>Date.now()\<close>, \<open>new Date()\<close>; one reading per operation),
  and the two name tables of nameGenerator.ts, which are display data only.
\<close>

record Env =
  rand :: "nat \<Rightarrow> real"
  now :: nat
  FIRST_NAMES :: "string list"
  LAST_NAMES :: "string list"

definition initialWorld :: "nat \<Rightarrow> World" where
  "initialWorld loadTime =
     \<lparr>staticStaff = STATIC_STAFF,
      simulationState =
        \<lparr>s_patients = [], s_assignments = [], lastUpdate = loadTime, tick = 0,
         isRunning = False, workloadHistory = []\<rparr>\<rparr>"

definition units :: "string list" where
  "units = [''ICU'', ''ER'', ''MEDSURG'', ''PEDS'']"

text \<open>\<open>array[Math.floor(Math.random() * array.length)]\<close> with the draw \<open>r\<close>.\<close>

definition pick :: "'a list \<Rightarrow> real \<Rightarrow> 'a" where
  "pick xs r = xs ! nat \<lfloor>r * real (length xs)\<rfloor>"

text \<open>\<open>generateRandomName\<close> (nameGenerator.ts) uses the draws \<open>k\<close> and \<open>k + 1\<close>.\<close>

definition generateRandomName :: "Env \<Rightarrow> nat \<Rightarrow> string" where
  "generateRandomName env k =
     pick (FIRST_NAMES env) (rand env k) @ '' '' @ pick (LAST_NAMES env) (rand env (k + 1))"

text \<open>\<open>getConditionFromAcuity\<close> uses the draw \<open>k\<close>.\<close>

definition getConditionFromAcuity :: "Env \<Rightarrow> nat \<Rightarrow> int \<Rightarrow> string" where
  "getConditionFromAcuity env k a =
     pick
       (if a = 1 then [''Stable'', ''Recovering Well'', ''Ready for Discharge'']
        else if a = 2 then [''Stable'', ''Improving'', ''Monitoring'']
        else if a = 4 then [''Serious'', ''Requires Attention'', ''Unstable'']
        else if a = 5 then [''Critical'', ''Life-Threatening'', ''Intensive Care'']
        else [''Moderate'', ''Stable'', ''Under Observation''])
       (rand env k)"

text \<open>
  The patient object literal of \<open>initializeSimulation\<close> and of the admission step: the
  name uses the draws \<open>k\<close> and \<open>k + 1\<close>, the condition the draw \<open>k + 2\<close>.
\<close>

definition newPatient :: "Env \<Rightarrow> nat \<Rightarrow> nat \<Rightarrow> int \<Rightarrow> string \<Rightarrow> Patient" where
  "newPatient env k i a u =
     \<lparr>pt_id = ''patient-'' @ showNat (now env) @ ''-'' @ showNat i,
      pt_name = generateRandomName env k,
      acuity = a,
      condition = getConditionFromAcuity env (k + 2) a,
      requiredSkills = [u],
      assignedNurseId = None,
      pt_unit = u\<rparr>"

section \<open>Initialization (createImbalancedInitialAssignments, initializeSimulation)\<close>

text \<open>
  \<open>patientsByUnit\<close>: a dictionary in insertion order. Every patient carries its index in
  the caller's array, where its object is written back after its back-reference was set.
\<close>

definition patientsByUnit :: "Patient list \<Rightarrow> (string \<times> (nat \<times> Patient) list) list" where
  "patientsByUnit ps =
     fold (\<lambda>(k, p) m.
             AList.update (pt_unit p)
               ((case map_of m (pt_unit p) of None \<Rightarrow> [] | Some l \<Rightarrow> l) @ [(k, p)]) m)
          (zip [0..<length ps] ps) []"

text \<open>
  The \<open>forEach\<close> over the patients of one unit: patient number \<open>index\<close> goes to
  \<open>overloadedNurses[index % overloadedNurses.length]\<close>; \<open>nursePatients\<close> is a Map keyed by
  nurse id, in insertion order.
\<close>

definition distribute ::
  "StaffMember list \<Rightarrow> (nat \<times> Patient) list \<Rightarrow> (string \<times> (nat \<times> Patient) list) list" where
  "distribute overloadedNurses unitPatients =
     fold (\<lambda>(index, (k, p)) nursePatients.
             let target = overloadedNurses ! (index mod length overloadedNurses);
                 p' = p\<lparr>assignedNurseId := Some (st_id target)\<rparr>
             in AList.update (st_id target)
                  ((case map_of nursePatients (st_id target) of None \<Rightarrow> [] | Some l \<Rightarrow> l)
                     @ [(k, p')])
                  nursePatients)
          (zip [0..<length unitPatients] unitPatients) []"

definition orFive :: "int \<Rightarrow> int" where
  "orFive n = (if n = 0 then 5 else n)"

definition overloadedAssignment :: "StaffMember \<Rightarrow> Patient list \<Rightarrow> Assignment" where
  "overloadedAssignment n ps =
     (let w = sum_list (map acuity ps);
          maxP = orFive (st_maxPatients n);
          over = (w > st_maxWorkload n \<or> int (length ps) > maxP)
      in \<lparr>nurseId = st_id n, nurseName = st_name n, unit = st_unit n,
          qualifications = st_qualifications n, patients = ps, workload = w,
          maxWorkload = st_maxWorkload n, maxPatients = maxP, isOverloaded = over,
          alert = (if over then (if int (length ps) > maxP then ''Too many patients!''
                                 else ''Workload too high!'')
                   else ''''),
          shift = st_shift n\<rparr>)"

definition idleAssignment :: "StaffMember \<Rightarrow> Assignment" where
  "idleAssignment n =
     \<lparr>nurseId = st_id n, nurseName = st_name n, unit = st_unit n,
      qualifications = st_qualifications n, patients = [], workload = 0,
      maxWorkload = st_maxWorkload n, maxPatients = orFive (st_maxPatients n),
      isOverloaded = False, alert = '''', shift = st_shift n\<rparr>"

text \<open>
  The loop over the entries of \<open>nursePatients\<close>. The state is the assignment array built
  so far, the set \<open>assignedNurseIds\<close> and the caller's patient array. The lookup
  \<open>overloadedNurses.find(...)!\<close> always succeeds, the keys being ids of these nurses.
\<close>

definition addOverloaded ::
  "StaffMember list \<Rightarrow> string \<times> (nat \<times> Patient) list
     \<Rightarrow> Assignment list \<times> string set \<times> Patient list
     \<Rightarrow> Assignment list \<times> string set \<times> Patient list" where
  "addOverloaded overloadedNurses entry st =
     (case (entry, st) of ((nid, kps), (assignments, assignedNurseIds, ps)) \<Rightarrow>
        (case find (\<lambda>n. st_id n = nid) overloadedNurses of
           None \<Rightarrow> st
         | Some n \<Rightarrow>
            (assignments @ [overloadedAssignment n (map snd kps)],
             insert (st_id n) assignedNurseIds,
             fold (\<lambda>(k, p') ps. ps[k := p']) kps ps)))"

text \<open>The body of the loop over the units that have patients.\<close>

definition assignUnit ::
  "StaffMember list \<Rightarrow> string \<times> (nat \<times> Patient) list
     \<Rightarrow> Assignment list \<times> string set \<times> Patient list
     \<Rightarrow> Assignment list \<times> string set \<times> Patient list" where
  "assignUnit staff entry st =
     (case (entry, st) of ((u, unitPatients), (assignments, assignedNurseIds, ps)) \<Rightarrow>
        (let available =
               filter (\<lambda>n. u \<in> set (st_qualifications n) \<and> st_id n \<notin> assignedNurseIds) staff
         in if available = [] then st
            else
              (let overloadedNurseCount = min 2 (max 1 (length available));
                   overloadedNurses = take overloadedNurseCount available
               in fold (addOverloaded overloadedNurses)
                       (distribute overloadedNurses unitPatients) st)))"

definition createImbalancedInitialAssignments ::
  "StaffMember list \<Rightarrow> Patient list \<Rightarrow> Assignment list \<times> Patient list" where
  "createImbalancedInitialAssignments staff ps =
     (case fold (assignUnit staff) (patientsByUnit ps) ([], {}, ps) of
        (assignments, assignedNurseIds, ps') \<Rightarrow>
          (assignments @ map idleAssignment (filter (\<lambda>n. st_id n \<notin> assignedNurseIds) staff),
           ps'))"

text \<open>
  Patient \<open>i\<close> of \<open>initializeSimulation\<close> uses four draws: \<open>4 i\<close> for the acuity, the next
  two for the name, the fourth for the condition. The patient count is a natural number,
  as the interface requires.
\<close>

definition initialPatient :: "Env \<Rightarrow> nat \<Rightarrow> Patient" where
  "initialPatient env i =
     newPatient env (4 * i + 1) i (\<lfloor>rand env (4 * i) * 5\<rfloor> + 1) (units ! (i mod length units))"

definition initializeSimulation :: "Env \<Rightarrow> nat \<Rightarrow> World \<Rightarrow> World" where
  "initializeSimulation env initialPatientCount w =
     (case createImbalancedInitialAssignments (staticStaff w)
             (map (initialPatient env) [0..<initialPatientCount]) of
        (assignments, ps) \<Rightarrow>
          w\<lparr>simulationState :=
              \<lparr>s_patients = ps, s_assignments = assignments, lastUpdate = now env, tick = 0,
               isRunning = True, workloadHistory = []\<rparr>\<rparr>)"

section \<open>One tick: the stochastic steps (runSimulationTick, steps 1 to 4)\<close>

definition convergenceFactor :: "nat \<Rightarrow> real" where
  "convergenceFactor currentTick = min (real currentTick / 20) 1"

definition randomnessFactor :: "nat \<Rightarrow> real" where
  "randomnessFactor currentTick = 1 - convergenceFactor currentTick * (7 / 10)"

definition baseDischargeChance :: "int \<Rightarrow> real" where
  "baseDischargeChance a =
     (if a = 1 then 2 / 10 else if a = 2 then 15 / 100 else if a = 3 then 1 / 10
      else if a = 4 then 5 / 100 else 2 / 100)"

text \<open>Step 1. The loop uses one draw per patient, starting with draw \<open>k\<close>.\<close>

fun dischargedIds :: "Env \<Rightarrow> real \<Rightarrow> nat \<Rightarrow> Patient list \<Rightarrow> string list" where
  "dischargedIds env rf k [] = []"
| "dischargedIds env rf k (patient # rest) =
     (if rand env k < baseDischargeChance (acuity patient) * rf then [pt_id patient] else [])
       @ dischargedIds env rf (Suc k) rest"

text \<open>
  Step 2. Admission \<open>i\<close> uses five draws from \<open>k\<close> on: unit, acuity, two for the name, one
  for the condition.
\<close>

definition admittedUnit :: "real \<Rightarrow> string" where
  "admittedUnit r =
     (if r < 4 / 10 then ''ER'' else if r < 6 / 10 then ''ICU''
      else if r < 8 / 10 then ''MEDSURG'' else ''PEDS'')"

definition admission :: "Env \<Rightarrow> nat \<Rightarrow> nat \<Rightarrow> Patient" where
  "admission env k i =
     newPatient env (k + 2) i (\<lfloor>rand env (k + 1) * 5\<rfloor> + 1) (admittedUnit (rand env k))"

text \<open>The patient array after step 2 and the number of the next draw.\<close>

definition admit :: "Env \<Rightarrow> real \<Rightarrow> nat \<Rightarrow> Patient list \<Rightarrow> Patient list \<times> nat" where
  "admit env rf k ps =
     (if rand env k < (3 / 10) * rf then
        (let admissionCount = nat (\<lfloor>rand env (k + 1) * 3\<rfloor> + 1)
         in (ps @ map (\<lambda>i. admission env (k + 2 + 5 * i) i) [0..<admissionCount],
             k + 2 + 5 * admissionCount))
      else (ps, k + 1))"

text \<open>Step 3: one draw per patient, and two more for a patient whose acuity changes.\<close>

fun acuityChanges :: "Env \<Rightarrow> real \<Rightarrow> nat \<Rightarrow> Patient list \<Rightarrow> Patient list \<times> nat" where
  "acuityChanges env chance k [] = ([], k)"
| "acuityChanges env chance k (patient # rest) =
     (if rand env k < chance then
        (let change = (if rand env (k + 1) < 1 / 2 then - 1 else 1);
             newAcuity = max 1 (min 5 (acuity patient + change));
             patient' = patient\<lparr>acuity := newAcuity,
                                 condition := getConditionFromAcuity env (k + 2) newAcuity\<rparr>
         in case acuityChanges env chance (k + 3) rest of (ps, k') \<Rightarrow> (patient' # ps, k'))
      else case acuityChanges env chance (k + 1) rest of (ps, k') \<Rightarrow> (patient # ps, k'))"

text \<open>
  Step 4: one draw per patient, and one more when a transferred patient has acuity 2 or 3.
\<close>

fun unitTransfers :: "Env \<Rightarrow> real \<Rightarrow> nat \<Rightarrow> Patient list \<Rightarrow> Patient list \<times> nat" where
  "unitTransfers env chance k [] = ([], k)"
| "unitTransfers env chance k (patient # rest) =
     (if rand env k < chance then
        (let (newUnit, k1) =
               (if acuity patient \<ge> 4 then (''ICU'', k + 1)
                else if acuity patient = 1 then (''MEDSURG'', k + 1)
                else (pick units (rand env (k + 1)), k + 2));
             patient' = (if newUnit \<noteq> pt_unit patient then patient\<lparr>pt_unit := newUnit\<rparr>
                         else patient)
         in case unitTransfers env chance k1 rest of (ps, k') \<Rightarrow> (patient' # ps, k'))
      else case unitTransfers env chance (k + 1) rest of (ps, k') \<Rightarrow> (patient # ps, k'))"

text \<open>The patient array after steps 1 to 4 of the tick with number \<open>currentTick\<close>.\<close>

definition evolvePatients :: "Env \<Rightarrow> nat \<Rightarrow> Patient list \<Rightarrow> Patient list" where
  "evolvePatients env currentTick ps0 =
     (let rf = randomnessFactor currentTick;
          discharged = dischargedIds env rf 0 ps0;
          ps1 = filter (\<lambda>p. pt_id p \<notin> set discharged) ps0;
          (ps2, k2) = admit env rf (length ps0) ps1;
          (ps3, k3) = acuityChanges env ((2 / 10) * rf) k2 ps2;
          (ps4, k4) = unitTransfers env ((5 / 100) * rf) k3 ps3
      in ps4)"

section \<open>Dynamic staff reassignment (reassignStaffToUnits)\<close>

record Demand =
  d_count :: int
  totalAcuity :: int

definition noDemand :: Demand where
  "noDemand = \<lparr>d_count = 0, totalAcuity = 0\<rparr>"

definition unitDemand :: "Patient list \<Rightarrow> string \<rightharpoonup> Demand" where
  "unitDemand ps =
     fold (\<lambda>p m.
             let d = (case m (pt_unit p) of None \<Rightarrow> noDemand | Some d \<Rightarrow> d)
             in m(pt_unit p \<mapsto> d\<lparr>d_count := d_count d + 1,
                                     totalAcuity := totalAcuity d + acuity p\<rparr>))
          ps Map.empty"

text \<open>\<open>unitDemand[unit] || { count: 0, totalAcuity: 0 }\<close> and \<open>staffByUnit[unit] || []\<close>.\<close>

definition demandOf :: "(string \<rightharpoonup> Demand) \<Rightarrow> string \<Rightarrow> Demand" where
  "demandOf m u = (case m u of None \<Rightarrow> noDemand | Some d \<Rightarrow> d)"

definition staffOf :: "(string \<rightharpoonup> nat list) \<Rightarrow> string \<Rightarrow> nat list" where
  "staffOf m u = (case m u of None \<Rightarrow> [] | Some l \<Rightarrow> l)"

text \<open>
  The function writes to staff objects (\<open>availableStaff.unit = unit\<close>), so it is modelled
  over a store of staff objects, a reference being an index into the store. On entry the
  store holds the objects of \<open>STATIC_STAFF\<close>; \<open>STATIC_STAFF.map(staff => ({ ...staff }))\<close>
  allocates the copies behind them. \<open>staffByUnit\<close> maps a unit to references.
\<close>

definition avgWorkload :: "Demand \<Rightarrow> nat list \<Rightarrow> real" where
  "avgWorkload d staff =
     (if length staff > 0 then real_of_int (totalAcuity d) / real (length staff) else 0)"

definition avgMaxWorkload :: "StaffMember list \<Rightarrow> nat list \<Rightarrow> real" where
  "avgMaxWorkload store staff =
     (if length staff > 0
      then real_of_int (sum_list (map (\<lambda>r. st_maxWorkload (store ! r)) staff)) / real (length staff)
      else 8)"

text \<open>
  The inner loop over \<open>otherUnit\<close>, for the overloaded unit \<open>u\<close>; it ends at the first
  staff member moved (\<open>break\<close>).
\<close>

fun pullStaff ::
  "(string \<rightharpoonup> Demand) \<Rightarrow> string \<Rightarrow> string list
     \<Rightarrow> StaffMember list \<times> (string \<rightharpoonup> nat list) \<Rightarrow> StaffMember list \<times> (string \<rightharpoonup> nat list)" where
  "pullStaff demand u [] st = st"
| "pullStaff demand u (otherUnit # rest) (store, staffByUnit) =
     (if otherUnit = u then pullStaff demand u rest (store, staffByUnit)
      else
        (let otherDemand = demandOf demand otherUnit;
             otherStaff = staffOf staffByUnit otherUnit
         in if length otherStaff \<le> 1 then pullStaff demand u rest (store, staffByUnit)
            else if avgWorkload otherDemand otherStaff < avgMaxWorkload store otherStaff * (4 / 10)
            then
              (case find (\<lambda>r. u \<in> set (st_qualifications (store ! r))) otherStaff of
                 Some availableStaff \<Rightarrow>
                   (store[availableStaff := (store ! availableStaff)\<lparr>st_unit := u\<rparr>],
                    (staffByUnit
                       (otherUnit \<mapsto>
                          filter (\<lambda>r. st_id (store ! r) \<noteq> st_id (store ! availableStaff))
                            otherStaff))
                       (u \<mapsto> staffOf staffByUnit u @ [availableStaff]))
               | None \<Rightarrow> pullStaff demand u rest (store, staffByUnit))
            else pullStaff demand u rest (store, staffByUnit)))"

text \<open>The body of the outer loop over the units.\<close>

definition relieveUnit ::
  "(string \<rightharpoonup> Demand) \<Rightarrow> string
     \<Rightarrow> StaffMember list \<times> (string \<rightharpoonup> nat list) \<Rightarrow> StaffMember list \<times> (string \<rightharpoonup> nat list)" where
  "relieveUnit demand u st =
     (let d = demandOf demand u;
          currentStaff = staffOf (snd st) u
      in if avgWorkload d currentStaff > avgMaxWorkload (fst st) currentStaff * (7 / 10)
            \<and> d_count d > 0
         then pullStaff demand u units st
         else st)"

definition groupStaff :: "StaffMember list \<Rightarrow> nat list \<Rightarrow> string \<rightharpoonup> nat list" where
  "groupStaff store refs =
     fold (\<lambda>r m. m(st_unit (store ! r) \<mapsto> staffOf m (st_unit (store ! r)) @ [r])) refs Map.empty"

text \<open>
  The result: the references of \<open>updatedStaff\<close> and the store after the call, whose first
  cells are the objects of \<open>STATIC_STAFF\<close>.
\<close>

definition reassignStaffToUnits :: "StaffMember list \<Rightarrow> Patient list \<Rightarrow> nat list \<times> StaffMember list" where
  "reassignStaffToUnits roster ps =
     (let store = roster @ map (\<lambda>staff. staff) roster;
          updatedStaff = [length roster..<length roster + length roster]
      in (updatedStaff,
          fst (fold (relieveUnit (unitDemand ps)) units (store, groupStaff store updatedStaff))))"

section \<open>One tick: solver, detector, auto-apply, history (runSimulationTick, steps 5 to 9)\<close>

definition applyRebalancingSuggestion ::
  "Assignment list \<Rightarrow> string \<Rightarrow> string \<Rightarrow> string \<Rightarrow> Assignment list" where
  "applyRebalancingSuggestion assignments fromId toId pid =
     map (\<lambda>assignment.
            if nurseId assignment = fromId then
              (let updatedPatients = filter (\<lambda>p. pt_id p \<noteq> pid) (patients assignment)
               in assignment\<lparr>patients := updatedPatients,
                             workload := sum_list (map acuity updatedPatients)\<rparr>)
            else if nurseId assignment = toId then
              (case (case find (\<lambda>a. nurseId a = fromId) assignments of
                       None \<Rightarrow> None
                     | Some a \<Rightarrow> find (hasId pid) (patients a)) of
                 Some patient \<Rightarrow>
                   (let updatedPatients = patients assignment @ [patient]
                    in assignment\<lparr>patients := updatedPatients,
                                  workload := sum_list (map acuity updatedPatients)\<rparr>)
               | None \<Rightarrow> assignment)
            else assignment)
         assignments"

definition suggestionsToApply :: "nat \<Rightarrow> int" where
  "suggestionsToApply currentTick = \<lceil>1 + convergenceFactor currentTick * 2\<rceil>"

definition workloadThreshold :: "nat \<Rightarrow> real" where
  "workloadThreshold currentTick = 3 - convergenceFactor currentTick * 2"

definition exceedsThreshold :: "real \<Rightarrow> RebalancingSuggestion \<Rightarrow> bool" where
  "exceedsThreshold threshold suggestion \<longleftrightarrow>
     \<bar>real_of_int (expectedFromWorkload suggestion - expectedToWorkload suggestion)\<bar> > threshold"

text \<open>The loop over \<open>prioritySuggestions\<close>.\<close>

definition autoApply :: "real \<Rightarrow> RebalancingSuggestion list \<Rightarrow> Assignment list \<Rightarrow> Assignment list" where
  "autoApply threshold prioritySuggestions assignments =
     fold (\<lambda>suggestion rebalancedAssignments.
             if exceedsThreshold threshold suggestion
             then applyRebalancingSuggestion rebalancedAssignments
                    (fromNurseId suggestion) (toNurseId suggestion) (patientId suggestion)
             else rebalancedAssignments)
          prioritySuggestions assignments"

definition prioritySuggestions :: "nat \<Rightarrow> RebalancingSuggestion list \<Rightarrow> RebalancingSuggestion list" where
  "prioritySuggestions currentTick suggestions = take (nat (suggestionsToApply currentTick)) suggestions"

definition workloadSnapshot :: "nat \<Rightarrow> Assignment list \<Rightarrow> WorkloadSnapshot" where
  "workloadSnapshot t assignments =
     \<lparr>snap_tick = t,
      nurseWorkloads =
        fold (\<lambda>assignment m.
                AList.update (nurseId assignment)
                  \<lparr>utilization =
                     (if maxWorkload assignment > 0
                      then real_of_int (workload assignment) / real_of_int (maxWorkload assignment)
                      else 0),
                   nl_nurseName = nurseName assignment\<rparr> m)
             assignments []\<rparr>"

definition updatedHistory :: "WorkloadSnapshot list \<Rightarrow> WorkloadSnapshot \<Rightarrow> WorkloadSnapshot list" where
  "updatedHistory history snapshot =
     (let h = history @ [snapshot] in if length h > 50 then tl h else h)"

text \<open>
  Steps 5 to 8 on the patient array of this tick: the assignments stored by the tick and
  the patient array with the solver's back-references.
\<close>

definition rebalance ::
  "nat \<Rightarrow> StaffMember list \<Rightarrow> Patient list \<Rightarrow> Assignment list \<times> Patient list \<times> StaffMember list" where
  "rebalance currentTick roster ps =
     (case reassignStaffToUnits roster ps of (refs, store) \<Rightarrow>
        (case assignPatientsToNurses ps (map (\<lambda>r. store ! r) refs) of (assignments, ps') \<Rightarrow>
           (case generateRebalancingSuggestions assignments of (suggestions, assignments') \<Rightarrow>
              (autoApply (workloadThreshold currentTick)
                 (prioritySuggestions currentTick suggestions) assignments',
               ps', take (length roster) store))))"

definition runSimulationTick :: "Env \<Rightarrow> World \<Rightarrow> World" where
  "runSimulationTick env w =
     (let s = simulationState w in
      if \<not> isRunning s then w
      else
        (let currentTick = tick s + 1
         in case rebalance currentTick (staticStaff w) (evolvePatients env currentTick (s_patients s)) of
              (rebalancedAssignments, ps, roster) \<Rightarrow>
                \<lparr>staticStaff = roster,
                 simulationState =
                   \<lparr>s_patients = ps,
                    s_assignments = rebalancedAssignments,
                    lastUpdate = now env,
                    tick = tick s + 1,
                    isRunning = True,
                    workloadHistory =
                      updatedHistory (workloadHistory s)
                        (workloadSnapshot (tick s + 1) rebalancedAssignments)\<rparr>\<rparr>))"

definition startSimulation :: "World \<Rightarrow> World" where
  "startSimulation w =
     (if \<not> isRunning (simulationState w)
      then w\<lparr>simulationState := (simulationState w)\<lparr>isRunning := True\<rparr>\<rparr>
      else w)"

definition stopSimulation :: "World \<Rightarrow> World" where
  "stopSimulation w = w\<lparr>simulationState := (simulationState w)\<lparr>isRunning := False\<rparr>\<rparr>"

definition resetSimulation :: "Env \<Rightarrow> nat \<Rightarrow> World \<Rightarrow> World" where
  "resetSimulation env initialPatientCount w = initializeSimulation env initialPatientCount w"

text \<open>The operations of the engine, and the world after a sequence of them.\<close>

datatype Operation =
  Initialize Env nat
| Tick Env
| Start
| Stop
| Reset Env nat

fun perform :: "Operation \<Rightarrow> World \<Rightarrow> World" where
  "perform (Initialize env n) w = initializeSimulation env n w"
| "perform (Tick env) w = runSimulationTick env w"
| "perform Start w = startSimulation w"
| "perform Stop w = stopSimulation w"
| "perform (Reset env n) w = resetSimulation env n w"

definition run :: "nat \<Rightarrow> Operation list \<Rightarrow> World" where
  "run loadTime ops = fold perform ops (initialWorld loadTime)"

section \<open>Balance metric (calculateBalanceMetric)\<close>

datatype Metric = IDEAL | SUFFICIENT | INADEQUATE

record Balance =
  metric :: Metric
  standardDeviation :: real
  averagePatientCount :: real
  maxPatientCount :: int

definition calculateBalanceMetric :: "Assignment list \<Rightarrow> Balance" where
  "calculateBalanceMetric assignments =
     (if length assignments = 0 then
        \<lparr>metric = IDEAL, standardDeviation = 0, averagePatientCount = 0, maxPatientCount = 0\<rparr>
      else
        (let patientCounts = map (\<lambda>a. int (length (patients a))) assignments;
             mean = real_of_int (fold (\<lambda>count sum. sum + count) patientCounts 0)
                      / real (length patientCounts);
             squaredDiffs = map (\<lambda>count. (real_of_int count - mean) ^ 2) patientCounts;
             variance = fold (\<lambda>d sum. sum + d) squaredDiffs 0 / real (length patientCounts);
             stdDev = sqrt variance;
             maxCount = Max (set patientCounts)
         in \<lparr>metric =
               (if maxCount \<le> 2 \<and> stdDev \<le> 1 then IDEAL
                else if maxCount \<le> 4 \<and> stdDev \<le> 15 / 10 then SUFFICIENT
                else INADEQUATE),
             standardDeviation = stdDev,
             averagePatientCount = mean,
             maxPatientCount = maxCount\<rparr>))"

section \<open>Example inputs\<close>

text \<open>An environment in which no random event of a tick fires and every new acuity is 5.\<close>

definition quietEnv :: Env where
  "quietEnv = \<lparr>rand = (\<lambda>k. 99 / 100), now = 0, FIRST_NAMES = [''Mary''], LAST_NAMES = [''Smith'']\<rparr>"

definition demoPatient :: Patient where
  "demoPatient =
     \<lparr>pt_id = ''patient-0-0'', pt_name = ''Mary Smith'', acuity = 3, condition = ''Moderate'',
      requiredSkills = [''ICU''], assignedNurseId = Some ''nurse-001'', pt_unit = ''ICU''\<rparr>"

definition demoSource :: Assignment where
  "demoSource = overloadedAssignment nurse_001 [demoPatient]"

definition demoTarget :: Assignment where
  "demoTarget = idleAssignment nurse_002"

definition demoAssignments :: "Assignment list" where
  "demoAssignments = [demoSource, demoTarget]"

definition demoSuggestion :: RebalancingSuggestion where
  "demoSuggestion = mkSuggestion demoSource demoTarget demoPatient"

section \<open>Auxiliary lemmas\<close>

lemma find_unique_index:
  assumes "i < length xs" "P (xs ! i)" "\<forall>k<length xs. P (xs ! k) \<longrightarrow> k = i"
  shows "find P xs = Some (xs ! i)"
  using assms
proof (induction xs arbitrary: i)
  case Nil
  then show ?case by simp
next
  case (Cons x xs)
  show ?case
  proof (cases i)
    case 0
    then show ?thesis using Cons.prems by simp
  next
    case (Suc m)
    have "\<not> P x" using Cons.prems(3) [rule_format, of 0] Suc by auto
    moreover have "find P xs = Some (xs ! m)"
    proof (rule Cons.IH)
      show "m < length xs" using Cons.prems(1) Suc by simp
      show "P (xs ! m)" using Cons.prems(2) Suc by simp
      show "\<forall>k<length xs. P (xs ! k) \<longrightarrow> k = m"
      proof (intro allI impI)
        fix k assume "k < length xs" "P (xs ! k)"
        then have "Suc k = i" using Cons.prems(3) [rule_format, of "Suc k"] by simp
        then show "k = m" using Suc by simp
      qed
    qed
    ultimately show ?thesis using Suc by simp
  qed
qed

lemma updatedHistory_bound: "length h \<le> 50 \<Longrightarrow> length (updatedHistory h x) \<le> 50"
  by (simp add: updatedHistory_def Let_def)

lemma perform_history_bound:
  assumes "length (workloadHistory (simulationState w)) \<le> 50"
  shows "length (workloadHistory (simulationState (perform op w))) \<le> 50"
proof (cases op)
  case (Initialize env n)
  then show ?thesis by (simp add: initializeSimulation_def split: prod.splits)
next
  case (Tick env)
  then show ?thesis using assms updatedHistory_bound
    by (simp add: runSimulationTick_def Let_def split: prod.splits)
next
  case Start
  then show ?thesis using assms by (simp add: startSimulation_def)
next
  case Stop
  then show ?thesis using assms by (simp add: stopSimulation_def)
next
  case (Reset env n)
  then show ?thesis by (simp add: resetSimulation_def initializeSimulation_def split: prod.splits)
qed

lemma fold_perform_history_bound:
  "length (workloadHistory (simulationState w)) \<le> 50
   \<Longrightarrow> length (workloadHistory (simulationState (fold perform ops w))) \<le> 50"
  by (induction ops arbitrary: w) (simp_all add: perform_history_bound)

section \<open>applySuggestion moves the named patient\<close>

text \<open>
  Claim C4. Let the assignment at position \<open>i\<close> be the only one whose nurse id is the
  suggestion's source and the assignment at position \<open>j\<close> the only one whose nurse id is
  its target; let the source hold the named patient \<open>P\<close> (the lookup of the suggestion's
  patient id in the source's list gives \<open>P\<close>) and the target hold no patient with that id.
  Then \<open>applySuggestion\<close> returns a list of the same length in which the source's patient
  list lacks every patient with that id, the target's list is its old list followed by
  \<open>P\<close>, every other assignment is unchanged, and the workloads of source and target add up
  to what they added up to before.
\<close>

theorem applySuggestion_moves_patient:
  assumes src: "i < length as" "nurseId (as ! i) = fromNurseId sg"
    and src_unique: "\<forall>k<length as. nurseId (as ! k) = fromNurseId sg \<longrightarrow> k = i"
    and tgt: "j < length as" "nurseId (as ! j) = toNurseId sg"
    and tgt_unique: "\<forall>k<length as. nurseId (as ! k) = toNurseId sg \<longrightarrow> k = j"
    and holds: "find (hasId (patientId sg)) (patients (as ! i)) = Some P"
    and lacks: "\<forall>p\<in>set (patients (as ! j)). pt_id p \<noteq> patientId sg"
  shows "length (applySuggestion as sg) = length as
    \<and> patients (applySuggestion as sg ! i) = filter (\<lambda>p. pt_id p \<noteq> patientId sg) (patients (as ! i))
    \<and> (\<forall>p\<in>set (patients (applySuggestion as sg ! i)). pt_id p \<noteq> patientId sg)
    \<and> patients (applySuggestion as sg ! j) = patients (as ! j) @ [P]
    \<and> P \<in> set (patients (applySuggestion as sg ! j))
    \<and> (\<forall>k<length as. k \<noteq> i \<and> k \<noteq> j \<longrightarrow> applySuggestion as sg ! k = as ! k)
    \<and> workload (applySuggestion as sg ! i) + workload (applySuggestion as sg ! j)
        = workload (as ! i) + workload (as ! j)"
proof -
  have P_id: "pt_id P = patientId sg" and P_in: "P \<in> set (patients (as ! i))"
    using holds by (auto simp: find_Some_iff hasId_def)
  have ij: "i \<noteq> j" using P_id P_in lacks by auto
  have not_src: "nurseId (as ! j) \<noteq> fromNurseId sg" using src_unique tgt(1) ij by blast
  have find_src: "find (\<lambda>x. nurseId x = fromNurseId sg) as = Some (as ! i)"
    using src src_unique by (intro find_unique_index)
  have ri: "applySuggestion as sg ! i =
      (as ! i)\<lparr>patients := filter (\<lambda>p. pt_id p \<noteq> patientId sg) (patients (as ! i)),
        workload := workload (as ! i) - acuity P,
        isOverloaded := (workload (as ! i) - acuity P > maxWorkload (as ! i) \<or>
                  int (length (patients (as ! i))) - 1 > maxPatients (as ! i)),
        alert := alertFor (workload (as ! i) - acuity P) (int (length (patients (as ! i))) - 1) (as ! i)\<rparr>"
    using src holds by (simp add: applySuggestion_def applyOne_def)
  have rj: "applySuggestion as sg ! j =
      (as ! j)\<lparr>patients := patients (as ! j) @ [P],
        workload := workload (as ! j) + acuity P,
        isOverloaded := (workload (as ! j) + acuity P > maxWorkload (as ! j) \<or>
                  int (length (patients (as ! j))) + 1 > maxPatients (as ! j)),
        alert := alertFor (workload (as ! j) + acuity P) (int (length (patients (as ! j))) + 1) (as ! j)\<rparr>"
    using tgt not_src find_src holds by (simp add: applySuggestion_def applyOne_def addPatient_def)
  have others: "\<forall>k<length as. k \<noteq> i \<and> k \<noteq> j \<longrightarrow> applySuggestion as sg ! k = as ! k"
  proof (intro allI impI)
    fix k assume k: "k < length as" "k \<noteq> i \<and> k \<noteq> j"
    then have "nurseId (as ! k) \<noteq> fromNurseId sg" "nurseId (as ! k) \<noteq> toNurseId sg"
      using src_unique tgt_unique by blast+
    then show "applySuggestion as sg ! k = as ! k"
      using k by (simp add: applySuggestion_def applyOne_def addPatient_def)
  qed
  have len: "length (applySuggestion as sg) = length as"
    by (simp add: applySuggestion_def)
  have lacksP: "\<forall>p\<in>set (patients (applySuggestion as sg ! i)). pt_id p \<noteq> patientId sg"
    by (simp add: ri)
  have wl: "workload (applySuggestion as sg ! i) + workload (applySuggestion as sg ! j)
        = workload (as ! i) + workload (as ! j)"
    by (simp add: ri rj)
  show ?thesis
    using len lacksP wl others by (simp add: ri rj)
qed

theorem applySuggestion_moves_patient_witness:
  "find (hasId (patientId demoSuggestion)) (patients (demoAssignments ! 0)) = Some demoPatient
   \<and> patients (demoAssignments ! 1) = []
   \<and> patients (applySuggestion demoAssignments demoSuggestion ! 0) = []
   \<and> patients (applySuggestion demoAssignments demoSuggestion ! 1) = [demoPatient]
   \<and> workload (applySuggestion demoAssignments demoSuggestion ! 0)
        + workload (applySuggestion demoAssignments demoSuggestion ! 1) = 3"
proof -
  note nth = demoAssignments_def
  have ids: "nurseId demoSource = ''nurse-001''" "nurseId demoTarget = ''nurse-002''"
      "fromNurseId demoSuggestion = ''nurse-001''" "toNurseId demoSuggestion = ''nurse-002''"
      "patientId demoSuggestion = ''patient-0-0''" "pt_id demoPatient = ''patient-0-0''"
    by (simp_all add: demoSuggestion_def mkSuggestion_def demoSource_def demoTarget_def
        overloadedAssignment_def idleAssignment_def nurse_001_def nurse_002_def demoPatient_def Let_def)
  have pts: "patients demoSource = [demoPatient]" "patients demoTarget = []"
      "workload demoSource = 3" "workload demoTarget = 0"
    by (simp_all add: demoSource_def demoTarget_def overloadedAssignment_def idleAssignment_def
        Let_def demoPatient_def)
  have h1: "0 < length demoAssignments" "nurseId (demoAssignments ! 0) = fromNurseId demoSuggestion"
    by (simp_all add: nth ids)
  have h2: "\<forall>k<length demoAssignments. nurseId (demoAssignments ! k) = fromNurseId demoSuggestion \<longrightarrow> k = 0"
    by (simp add: demoAssignments_def ids less_Suc_eq numeral_2_eq_2)
  have h3: "1 < length demoAssignments" "nurseId (demoAssignments ! 1) = toNurseId demoSuggestion"
    by (simp_all add: nth ids)
  have h4: "\<forall>k<length demoAssignments. nurseId (demoAssignments ! k) = toNurseId demoSuggestion \<longrightarrow> k = 1"
    by (simp add: demoAssignments_def ids less_Suc_eq numeral_2_eq_2)
  have h5: "find (hasId (patientId demoSuggestion)) (patients (demoAssignments ! 0)) = Some demoPatient"
    by (simp add: nth pts ids hasId_def)
  have h6: "\<forall>p\<in>set (patients (demoAssignments ! 1)). pt_id p \<noteq> patientId demoSuggestion"
    by (simp add: nth pts)
  from applySuggestion_moves_patient [OF h1 h2 h3 h4 h5 h6] h5 h6 show ?thesis
    by (simp add: nth pts ids)
qed

section \<open>A tick on a simulation that is not running\<close>

text \<open>
  Claim C7. When the simulation is not running, \<open>runSimulationTick\<close> leaves the whole
  module state as it is (tick counter, patients, assignments, history and roster), and the
  state it returns is that state; in particular before any \<open>initializeSimulation\<close>, where
  the module state is the one set up at load time. The function has no failing branch.
\<close>

theorem tick_when_not_running:
  "(\<not> isRunning (simulationState w) \<longrightarrow> runSimulationTick env w = w)
   \<and> runSimulationTick env (initialWorld loadTime) = initialWorld loadTime"
  by (simp add: runSimulationTick_def initialWorld_def)

theorem tick_when_not_running_witness:
  "\<not> isRunning (simulationState (stopSimulation (initializeSimulation quietEnv 1 (initialWorld 0))))
   \<and> runSimulationTick quietEnv (stopSimulation (initializeSimulation quietEnv 1 (initialWorld 0)))
       = stopSimulation (initializeSimulation quietEnv 1 (initialWorld 0))"
proof -
  have h: "\<not> isRunning (simulationState (stopSimulation (initializeSimulation quietEnv 1 (initialWorld 0))))"
    by (simp add: stopSimulation_def)
  from tick_when_not_running [of "stopSimulation (initializeSimulation quietEnv 1 (initialWorld 0))" quietEnv]
    h show ?thesis by simp
qed

section \<open>The workload history is bounded\<close>

text \<open>
  Claim C8. After any sequence of engine operations from the module's load state
  (initialize, tick, start, stop, reset, in any order and number, with any random draws),
  the workload history holds at most 50 snapshots.
\<close>

theorem workloadHistory_at_most_50:
  "length (workloadHistory (simulationState (run loadTime ops))) \<le> 50"
  unfolding run_def by (rule fold_perform_history_bound) (simp add: initialWorld_def)

end
